theory Spec2Isabelle
  imports Complex_Main
begin

section \<open>bipmap: a repeating beep with adjustable volume, delay and sound\<close>

text \<open>
  The program (\<^verbatim>\<open>bipmap.py\<close>) has three parts: \<^verbatim>\<open>RepeatTimer\<close>, which re-arms a
  \<^verbatim>\<open>threading.Timer\<close> on every fire; \<^verbatim>\<open>BeepController\<close>, which owns one
  \<^verbatim>\<open>RepeatTimer\<close> and plays the sound from the timer's callback \<^verbatim>\<open>dong\<close>; and the
  command loop of \<^verbatim>\<open>main\<close>. The model is a state-passing one: every method is a
  function from the state of the whole process (\<open>world\<close>) to the next state.

  Time is not modelled, only the order of events. Python's \<^verbatim>\<open>int\<close> is \<open>int\<close>. The
  gain handed to the mixer, \<^verbatim>\<open>self.volume / 100.0\<close>, is the exact quotient in \<open>rat\<close>
  when the integer converts to a float, and an \<^verbatim>\<open>OverflowError\<close> when it does not; the
  rounding of the float is not modelled. A string is a \<open>string\<close>, its characters the
  code points below 256.
\<close>

subsection \<open>The library objects: \<^verbatim>\<open>threading.Timer\<close> and \<^verbatim>\<open>pygame.mixer.music\<close>\<close>

text \<open>
  A \<^verbatim>\<open>threading.Timer\<close> is a thread whose body is
  \<^verbatim>\<open>self.finished.wait(self.interval); if not self.finished.is_set(): self.function(); self.finished.set()\<close>
  and whose \<^verbatim>\<open>cancel()\<close> is \<^verbatim>\<open>self.finished.set()\<close>. The thread is \<open>Waiting\<close> until its
  wait returns; it is \<open>Called\<close> once it has seen the event unset and is committed to
  running the function (a cancel that arrives now is too late); it is \<open>Ended\<close> afterwards.
\<close>

datatype timer_phase = Waiting | Called | Ended

record py_timer =
  t_interval :: int
  finished :: bool
  phase :: timer_phase

text \<open>What the program prints, one constructor per \<^verbatim>\<open>print\<close> call of the source.\<close>

datatype msg =
    Info int int
  | NewSoundLoaded string
  | ErrorLoadingSound string
  | TimerPaused
  | TimerResumed
  | InvalidVolume
  | InvalidDelay
  | InvalidSound
  | ExitingProgram
  | InvalidCommand
  | AvailableCommands
  | InvalidConfigSound

subsection \<open>The state\<close>

text \<open>
  \<open>timer_obj\<close> is the field \<^verbatim>\<open>_timer\<close>: \<open>None\<close>, or the index of a thread in \<open>threads\<close>.
  The field \<^verbatim>\<open>function\<close> of the \<^verbatim>\<open>RepeatTimer\<close> is always the bound method
  \<^verbatim>\<open>self.dong\<close> of the controller that owns it (the only construction site is
  \<^verbatim>\<open>RepeatTimer(delay, self.dong)\<close>), so it is not a field of the model.
\<close>

record repeat_timer =
  interval :: int
  timer_obj :: "nat option"
  is_running :: bool

record beep_controller =
  sound :: string
  delay :: int
  volume :: int
  paused :: bool
  timer :: repeat_timer

text \<open>
  \<open>threads\<close> holds every \<^verbatim>\<open>threading.Timer\<close> created so far. \<open>mixer_loaded\<close> and
  \<open>mixer_volume\<close> are the state of \<^verbatim>\<open>mixer.music\<close>; \<open>played\<close> logs each call of
  \<^verbatim>\<open>mixer.music.play()\<close> with what was loaded and the volume set at that moment.
  \<open>mixer_volume\<close> is the last value handed to \<^verbatim>\<open>mixer.music.set_volume\<close>; what the
  mixer makes of it is not modelled. \<open>config\<close> is the \<^verbatim>\<open>DEFAULT\<close> section of the parser
  object, \<open>config_file\<close> the last content written to \<^verbatim>\<open>config.txt\<close>. \<open>uncaught\<close> lists
  the exceptions that have ended a timer thread.
\<close>

datatype py_exc = SystemExit int | OSError | EOFError | OverflowError

record world =
  threads :: "py_timer list"
  beeper :: beep_controller
  mixer_loaded :: "string option"
  mixer_volume :: rat
  played :: "(string option \<times> rat) list"
  out :: "msg list"
  config :: "string \<rightharpoonup> string"
  config_file :: "(string \<rightharpoonup> string) option"
  uncaught :: "py_exc list"

text \<open>
  What the program asks of its surroundings: whether \<^verbatim>\<open>mixer.music.load\<close> accepts a
  path, \<^verbatim>\<open>os.path.isabs\<close>, \<^verbatim>\<open>os.path.isfile\<close>, the join with the script's directory,
  whether \<^verbatim>\<open>config.txt\<close> can be opened for writing, and the interpreter's limit on the
  digits of an integer string (\<^verbatim>\<open>sys.get_int_max_str_digits()\<close>: 0 for no limit, else at
  least 640; 4300 by default where the limit exists).
\<close>

record env =
  loadable :: "string \<Rightarrow> bool"
  isabs :: "string \<Rightarrow> bool"
  isfile :: "string \<Rightarrow> bool"
  join_script_dir :: "string \<Rightarrow> string"
  can_write :: bool
  max_str_digits :: nat

definition upd_timer :: "(repeat_timer \<Rightarrow> repeat_timer) \<Rightarrow> world \<Rightarrow> world" where
  "upd_timer f w = w\<lparr>beeper := (beeper w)\<lparr>timer := f (timer (beeper w))\<rparr>\<rparr>"

definition print :: "msg \<Rightarrow> world \<Rightarrow> world" where
  "print m w = w\<lparr>out := out w @ [m]\<rparr>"

subsection \<open>\<^verbatim>\<open>RepeatTimer\<close>\<close>

definition Timer_cancel :: "nat \<Rightarrow> world \<Rightarrow> world" where
  "Timer_cancel h w =
     (if h < length (threads w)
      then w\<lparr>threads := (threads w)[h := (threads w ! h)\<lparr>finished := True\<rparr>]\<rparr>
      else w)"

text \<open>
  \<^verbatim>\<open>start\<close>: when not running, create a \<^verbatim>\<open>Timer(self.interval, self._run)\<close>, start it
  and set \<^verbatim>\<open>is_running\<close>; otherwise nothing.
\<close>

definition RepeatTimer_start :: "world \<Rightarrow> world" where
  "RepeatTimer_start w =
     (if \<not> is_running (timer (beeper w))
      then upd_timer (\<lambda>rt. rt\<lparr>timer_obj := Some (length (threads w)), is_running := True\<rparr>)
             (w\<lparr>threads := threads w @
                  [\<lparr>t_interval = interval (timer (beeper w)), finished = False,
                     phase = Waiting\<rparr>]\<rparr>)
      else w)"

definition RepeatTimer_stop :: "world \<Rightarrow> world" where
  "RepeatTimer_stop w =
     upd_timer (\<lambda>rt. rt\<lparr>is_running := False\<rparr>)
       (case timer_obj (timer (beeper w)) of
          None \<Rightarrow> w
        | Some h \<Rightarrow> Timer_cancel h w)"

subsection \<open>\<^verbatim>\<open>BeepController\<close>\<close>

text \<open>
  A call of the timer's callback either returns or raises; both leave a state behind.
\<close>

datatype call_result = Returns world | Raises py_exc world

fun state_of :: "call_result \<Rightarrow> world" where
  "state_of (Returns w) = w"
| "state_of (Raises x w) = w"

text \<open>
  \<^verbatim>\<open>self.volume / 100.0\<close> first converts the integer to a float, rounding to nearest with
  ties to even, and raises \<^verbatim>\<open>OverflowError\<close> when the result is beyond the largest double
  \<open>2 ^ 1024 - 2 ^ 971\<close>, that is, when the magnitude reaches \<open>2 ^ 1024 - 2 ^ 970\<close>.
\<close>

definition float_ok :: "int \<Rightarrow> bool" where
  "float_ok i \<longleftrightarrow> \<bar>i\<bar> < 2 ^ 1024 - 2 ^ 970"

text \<open>
  \<^verbatim>\<open>dong\<close>: when not paused, compute the gain, hand it to \<^verbatim>\<open>mixer.music.set_volume\<close> and
  call \<^verbatim>\<open>mixer.music.play()\<close>. When the division raises, neither call is reached.
\<close>

definition dong :: "world \<Rightarrow> call_result" where
  "dong w =
     (if \<not> paused (beeper w)
      then (if float_ok (volume (beeper w))
            then Returns (w\<lparr>mixer_volume := of_int (volume (beeper w)) / 100,
                   played := played w @ [(mixer_loaded w, of_int (volume (beeper w)) / 100)]\<rparr>)
            else Raises OverflowError w)
      else Returns w)"

text \<open>
  \<^verbatim>\<open>_run\<close>: clear \<^verbatim>\<open>is_running\<close>, \<^verbatim>\<open>start()\<close> again, then call the function, whose
  exception, if any, leaves \<^verbatim>\<open>_run\<close> with the timer already re-armed.
\<close>

definition RepeatTimer_run :: "world \<Rightarrow> call_result" where
  "RepeatTimer_run w =
     dong (RepeatTimer_start (upd_timer (\<lambda>rt. rt\<lparr>is_running := False\<rparr>) w))"

definition info :: "world \<Rightarrow> world" where
  "info w = print (Info (volume (beeper w)) (delay (beeper w))) w"

definition set_volume :: "int \<Rightarrow> world \<Rightarrow> world" where
  "set_volume v w = info (w\<lparr>beeper := (beeper w)\<lparr>volume := v\<rparr>\<rparr>)"

definition set_delay :: "int \<Rightarrow> world \<Rightarrow> world" where
  "set_delay d w =
     info (upd_timer (\<lambda>rt. rt\<lparr>interval := d\<rparr>) (w\<lparr>beeper := (beeper w)\<lparr>delay := d\<rparr>\<rparr>))"

text \<open>
  \<^verbatim>\<open>set_sound\<close> assigns \<^verbatim>\<open>self.sound\<close> first, inside the \<^verbatim>\<open>try\<close>, and loads second. A
  failed \<^verbatim>\<open>mixer.music.load\<close> raises before pygame replaces its current music, so the
  mixer keeps what it had.
\<close>

definition set_sound :: "env \<Rightarrow> string \<Rightarrow> world \<Rightarrow> world" where
  "set_sound e s w =
     (let w1 = w\<lparr>beeper := (beeper w)\<lparr>sound := s\<rparr>\<rparr> in
      if loadable e s
      then print (NewSoundLoaded s) (w1\<lparr>mixer_loaded := Some s\<rparr>)
      else print (ErrorLoadingSound s) w1)"

definition pause :: "world \<Rightarrow> world" where
  "pause w = print TimerPaused (w\<lparr>beeper := (beeper w)\<lparr>paused := True\<rparr>\<rparr>)"

definition resume :: "world \<Rightarrow> world" where
  "resume w = print TimerResumed (w\<lparr>beeper := (beeper w)\<lparr>paused := False\<rparr>\<rparr>)"

definition BeepController_stop :: "world \<Rightarrow> world" where
  "BeepController_stop w = RepeatTimer_stop w"

text \<open>
  The constructor: the fields, the load (on failure a message and \<^verbatim>\<open>exit(1)\<close>), then
  \<^verbatim>\<open>RepeatTimer(delay, self.dong)\<close>, whose own constructor ends with \<^verbatim>\<open>self.start()\<close>.
  Its last three arguments are what the process has printed and the configuration it
  holds when the controller is built.
\<close>

definition BeepController_init ::
  "env \<Rightarrow> string \<Rightarrow> int \<Rightarrow> int \<Rightarrow> msg list \<Rightarrow> (string \<rightharpoonup> string) \<Rightarrow>
     (string \<rightharpoonup> string) option \<Rightarrow> (py_exc \<times> msg list) + world" where
  "BeepController_init e s d v printed cfg file =
     (if \<not> loadable e s then Inl (SystemExit 1, printed @ [ErrorLoadingSound s])
      else Inr (RepeatTimer_start
        \<lparr>threads = [],
         beeper = \<lparr>sound = s, delay = d, volume = v, paused = False,
                   timer = \<lparr>interval = d, timer_obj = None, is_running = False\<rparr>\<rparr>,
         mixer_loaded = Some s, mixer_volume = 1, played = [],
         out = printed, config = cfg, config_file = file, uncaught = []\<rparr>))"

subsection \<open>The steps of a timer thread\<close>

text \<open>
  \<open>Timer_wake h\<close>: the wait of thread \<open>h\<close> returns and the thread tests the event.
  \<open>Timer_call h\<close>: the thread, committed, runs \<^verbatim>\<open>_run\<close> and ends: when \<^verbatim>\<open>_run\<close> returns,
  after setting its event; when \<^verbatim>\<open>_run\<close> raises, with the exception uncaught and the event
  as it was. A step of a thread that is not at that point leaves the state as it is.
  \<open>fire h\<close> is both steps with nothing in between.
\<close>

definition Timer_wake :: "nat \<Rightarrow> world \<Rightarrow> world" where
  "Timer_wake h w =
     (if h < length (threads w) \<and> phase (threads w ! h) = Waiting
      then w\<lparr>threads := (threads w)[h := (threads w ! h)
               \<lparr>phase := (if finished (threads w ! h) then Ended else Called)\<rparr>]\<rparr>
      else w)"

definition Timer_call :: "nat \<Rightarrow> world \<Rightarrow> world" where
  "Timer_call h w =
     (if h < length (threads w) \<and> phase (threads w ! h) = Called
      then (case RepeatTimer_run w of
              Returns w' \<Rightarrow>
                w'\<lparr>threads := (threads w')[h := (threads w' ! h)
                     \<lparr>finished := True, phase := Ended\<rparr>]\<rparr>
            | Raises x w' \<Rightarrow>
                w'\<lparr>threads := (threads w')[h := (threads w' ! h)\<lparr>phase := Ended\<rparr>],
                   uncaught := uncaught w' @ [x]\<rparr>)
      else w)"

definition fire :: "nat \<Rightarrow> world \<Rightarrow> world" where
  "fire h w = Timer_call h (Timer_wake h w)"

subsection \<open>Strings: \<^verbatim>\<open>strip\<close>, \<^verbatim>\<open>startswith\<close>, \<^verbatim>\<open>split\<close>, \<^verbatim>\<open>int\<close>, \<^verbatim>\<open>str\<close>\<close>

text \<open>
  The whitespace of \<^verbatim>\<open>str.strip()\<close> and \<^verbatim>\<open>str.split()\<close> among the code points below
  256: tab to carriage return, the four separators 28 to 31, the space, 133 and 160.
\<close>

definition py_isspace :: "char \<Rightarrow> bool" where
  "py_isspace c \<longleftrightarrow>
     c \<in> set [CHR 0x09, CHR 0x0A, CHR 0x0B, CHR 0x0C, CHR 0x0D, CHR 0x1C, CHR 0x1D,
              CHR 0x1E, CHR 0x1F, CHR 0x20, CHR 0x85, CHR 0xA0]"

definition py_strip :: "string \<Rightarrow> string" where
  "py_strip s = rev (dropWhile py_isspace (rev (dropWhile py_isspace s)))"

definition startswith :: "string \<Rightarrow> string \<Rightarrow> bool" where
  "startswith s p \<longleftrightarrow> take (length p) s = p"

text \<open>\<^verbatim>\<open>s.split()\<close>: the maximal runs of characters that are not whitespace.\<close>

fun split_ws :: "string \<Rightarrow> string \<Rightarrow> string list" where
  "split_ws cur [] = (if cur = [] then [] else [cur])"
| "split_ws cur (c # cs) =
     (if py_isspace c then (if cur = [] then split_ws [] cs else cur # split_ws [] cs)
      else split_ws (cur @ [c]) cs)"

definition py_split :: "string \<Rightarrow> string list" where
  "py_split s = split_ws [] s"

text \<open>
  \<^verbatim>\<open>s.split(" ", 1)[1]\<close>: what follows the first space; \<open>None\<close> is the \<^verbatim>\<open>IndexError\<close>
  of a string without a space.
\<close>

definition split1_snd :: "string \<Rightarrow> string option" where
  "split1_snd s =
     (case dropWhile (\<lambda>c. c \<noteq> CHR '' '') s of [] \<Rightarrow> None | c # rest \<Rightarrow> Some rest)"

text \<open>
  \<^verbatim>\<open>int(s)\<close> on a string: surrounding whitespace is dropped (for \<^verbatim>\<open>int\<close> the four
  separators 28 to 31 are not whitespace), then an optional sign, then decimal digits,
  where single underscores may stand between digits. Where the interpreter limits the
  digits of an integer string, a numeral with more digits than the limit (underscores
  and the sign not counted) is refused. \<open>None\<close> is the \<^verbatim>\<open>ValueError\<close>.
\<close>

definition int_isspace :: "char \<Rightarrow> bool" where
  "int_isspace c \<longleftrightarrow>
     c \<in> set [CHR 0x09, CHR 0x0A, CHR 0x0B, CHR 0x0C, CHR 0x0D, CHR 0x20, CHR 0x85, CHR 0xA0]"

definition digit_val :: "char \<Rightarrow> int option" where
  "digit_val c =
     map_of [(CHR ''0'', 0), (CHR ''1'', 1), (CHR ''2'', 2), (CHR ''3'', 3), (CHR ''4'', 4),
             (CHR ''5'', 5), (CHR ''6'', 6), (CHR ''7'', 7), (CHR ''8'', 8), (CHR ''9'', 9)] c"

fun parse_digits :: "int \<Rightarrow> bool \<Rightarrow> string \<Rightarrow> int option" where
  "parse_digits acc after_digit [] = (if after_digit then Some acc else None)"
| "parse_digits acc after_digit (c # cs) =
     (case digit_val c of
        Some d \<Rightarrow> parse_digits (10 * acc + d) True cs
      | None \<Rightarrow> if c = CHR ''_'' \<and> after_digit then parse_digits acc False cs else None)"

definition too_many_digits :: "env \<Rightarrow> string \<Rightarrow> bool" where
  "too_many_digits e s \<longleftrightarrow>
     0 < max_str_digits e \<and> max_str_digits e < length (filter (\<lambda>c. digit_val c \<noteq> None) s)"

definition py_int :: "env \<Rightarrow> string \<Rightarrow> int option" where
  "py_int e s =
     (case rev (dropWhile int_isspace (rev (dropWhile int_isspace s))) of
        [] \<Rightarrow> None
      | c # cs \<Rightarrow>
          if too_many_digits e (c # cs) then None
          else if c = CHR ''-'' then map_option uminus (parse_digits 0 False cs)
          else if c = CHR ''+'' then parse_digits 0 False cs
          else parse_digits 0 False (c # cs))"

text \<open>
  \<^verbatim>\<open>str(i)\<close> of an integer, as the branches of \<^verbatim>\<open>-v\<close> and \<^verbatim>\<open>-d\<close> call it on a value that
  \<^verbatim>\<open>int\<close> has just read, so within the limit on digits.
\<close>

fun digits :: "nat \<Rightarrow> string" where
  "digits n =
     (if n < 10 then [''0123456789'' ! n]
      else digits (n div 10) @ [''0123456789'' ! (n mod 10)])"

definition py_str :: "int \<Rightarrow> string" where
  "py_str i = (if i < 0 then CHR ''-'' # digits (nat (- i)) else digits (nat i))"

subsection \<open>The command loop\<close>

definition validate_sound :: "env \<Rightarrow> string \<Rightarrow> bool" where
  "validate_sound e sound_path =
     isfile e (if \<not> isabs e sound_path then join_script_dir e sound_path else sound_path)"

text \<open>
  One pass through the loop body either goes on to the next \<^verbatim>\<open>input\<close>, leaves the loop
  by \<^verbatim>\<open>break\<close>, or lets an exception escape from \<^verbatim>\<open>main\<close>.
\<close>

datatype outcome = Continue world | Break world | Raise py_exc world

fun world_of :: "outcome \<Rightarrow> world" where
  "world_of (Continue w) = w"
| "world_of (Break w) = w"
| "world_of (Raise x w) = w"

text \<open>
  An assignment \<^verbatim>\<open>config["DEFAULT"][key] = value\<close> goes through the parser's check of
  interpolation syntax: with every \<^verbatim>\<open>%%\<close> removed, and then every \<^verbatim>\<open>%(name)s\<close> with a
  non-empty name without a closing parenthesis removed, no \<^verbatim>\<open>%\<close> may be left, else
  \<^verbatim>\<open>ValueError\<close>.
\<close>

fun drop_escaped :: "string \<Rightarrow> string" where
  "drop_escaped (a # b # cs) =
     (if a = CHR ''%'' \<and> b = CHR ''%'' then drop_escaped cs else a # drop_escaped (b # cs))"
| "drop_escaped cs = cs"

text \<open>What follows a key \<^verbatim>\<open>%(name)s\<close> at the head of the string, if there is one.\<close>

definition after_key :: "string \<Rightarrow> string option" where
  "after_key s =
     (case s of
        a # b # cs \<Rightarrow>
          if a = CHR ''%'' \<and> b = CHR ''('' \<and> takeWhile (\<lambda>c. c \<noteq> CHR '')'') cs \<noteq> []
          then (case dropWhile (\<lambda>c. c \<noteq> CHR '')'') cs of
                  p # q # rest \<Rightarrow> if q = CHR ''s'' then Some rest else None
                | _ \<Rightarrow> None)
          else None
      | _ \<Rightarrow> None)"

function drop_keys :: "string \<Rightarrow> string" where
  "drop_keys [] = []"
| "drop_keys (c # cs) =
     (case after_key (c # cs) of
        Some rest \<Rightarrow> drop_keys rest
      | None \<Rightarrow> c # drop_keys cs)"
  by pat_completeness auto
termination
proof (relation "measure length")
  show "wf (measure length)" by simp
next
  fix c cs rest
  assume a: "after_key (c # cs) = Some rest"
  have "length rest < length (c # cs)"
  proof (cases cs)
    case Nil
    then show ?thesis using a by (simp add: after_key_def)
  next
    case (Cons b bs)
    have "length (dropWhile (\<lambda>c. c \<noteq> CHR '')'') bs) \<le> length bs"
      by (rule length_dropWhile_le)
    then show ?thesis
      using a Cons by (auto simp: after_key_def split: list.splits if_splits)
  qed
  then show "(rest, c # cs) \<in> measure length" by simp
next
  fix c cs
  show "(cs, c # cs) \<in> measure length" by simp
qed

definition config_accepts :: "string \<Rightarrow> bool" where
  "config_accepts v \<longleftrightarrow> CHR ''%'' \<notin> set (drop_keys (drop_escaped v))"

text \<open>
  \<open>set_config\<close> is the assignment once accepted. The branches of \<^verbatim>\<open>-v\<close> and \<^verbatim>\<open>-d\<close>
  assign the \<^verbatim>\<open>str\<close> of an integer, which has no \<^verbatim>\<open>%\<close> and is always accepted.
\<close>

definition set_config :: "string \<Rightarrow> string \<Rightarrow> world \<Rightarrow> world" where
  "set_config k v w = w\<lparr>config := (config w)(k \<mapsto> v)\<rparr>"

definition write_config :: "world \<Rightarrow> world" where
  "write_config w = w\<lparr>config_file := Some (config w)\<rparr>"

text \<open>
  The branch of \<^verbatim>\<open>-v\<close>. The \<^verbatim>\<open>except\<close> clause catches the \<^verbatim>\<open>ValueError\<close> of \<^verbatim>\<open>int\<close>
  and of the range test, and the \<^verbatim>\<open>IndexError\<close> of a missing second word; an \<^verbatim>\<open>OSError\<close>
  of the write escapes.
\<close>

definition cmd_volume :: "env \<Rightarrow> string \<Rightarrow> world \<Rightarrow> outcome" where
  "cmd_volume e cmd w =
     (case py_split cmd of
        a # tok # rest \<Rightarrow>
          (case py_int e tok of
             None \<Rightarrow> Continue (print InvalidVolume w)
           | Some new_volume \<Rightarrow>
               if new_volume > 100 \<or> new_volume < 0 then Continue (print InvalidVolume w)
               else (let w' = set_config ''volume'' (py_str new_volume) (set_volume new_volume w)
                     in if can_write e then Continue (write_config w') else Raise OSError w'))
      | _ \<Rightarrow> Continue (print InvalidVolume w))"

text \<open>The branch of \<^verbatim>\<open>-d\<close>: as above, without a range test.\<close>

definition cmd_delay :: "env \<Rightarrow> string \<Rightarrow> world \<Rightarrow> outcome" where
  "cmd_delay e cmd w =
     (case py_split cmd of
        a # tok # rest \<Rightarrow>
          (case py_int e tok of
             None \<Rightarrow> Continue (print InvalidDelay w)
           | Some new_delay \<Rightarrow>
               (let w' = set_config ''delay'' (py_str new_delay) (set_delay new_delay w)
                in if can_write e then Continue (write_config w') else Raise OSError w'))
      | _ \<Rightarrow> Continue (print InvalidDelay w))"

text \<open>
  The branch of \<^verbatim>\<open>-s\<close>: \<^verbatim>\<open>set_sound\<close> runs first; \<^verbatim>\<open>except Exception\<close> then catches the
  \<^verbatim>\<open>ValueError\<close> of a refused assignment and the \<^verbatim>\<open>OSError\<close> of a failed write too.
\<close>

definition cmd_sound :: "env \<Rightarrow> string \<Rightarrow> world \<Rightarrow> outcome" where
  "cmd_sound e cmd w =
     (case split1_snd cmd of
        None \<Rightarrow> Continue (print InvalidSound w)
      | Some new_sound \<Rightarrow>
          if \<not> validate_sound e new_sound then Continue (print InvalidSound w)
          else (let w1 = set_sound e new_sound w in
                if \<not> config_accepts new_sound then Continue (print InvalidSound w1)
                else (let w' = set_config ''sound'' new_sound w1
                      in if can_write e then Continue (write_config w')
                         else Continue (print InvalidSound w'))))"

definition exit_commands :: "string list" where
  "exit_commands = [''exit'', ''exit()'', ''stop'', ''stop()'', ''quit'', ''quit()'', ''q'']"

definition handle_cmd :: "env \<Rightarrow> string \<Rightarrow> world \<Rightarrow> outcome" where
  "handle_cmd e cmd w =
     (if startswith cmd ''-v '' then cmd_volume e cmd w
      else if startswith cmd ''-d '' then cmd_delay e cmd w
      else if startswith cmd ''-s '' then cmd_sound e cmd w
      else if cmd = ''pause'' then Continue (pause w)
      else if cmd = ''resume'' then Continue (resume w)
      else if cmd \<in> set exit_commands
        then Break (print ExitingProgram (BeepController_stop w))
      else Continue (print AvailableCommands (print InvalidCommand w)))"

text \<open>
  The loop, driven by what happens to the process: a line arrives on standard input,
  standard input ends (\<^verbatim>\<open>input\<close> raises \<^verbatim>\<open>EOFError\<close>), or a timer thread takes a step
  between two commands. With no event left the loop waits at \<^verbatim>\<open>input\<close>.
\<close>

datatype thread_step = Wake nat | Call nat

fun do_step :: "thread_step \<Rightarrow> world \<Rightarrow> world" where
  "do_step (Wake h) w = Timer_wake h w"
| "do_step (Call h) w = Timer_call h w"

fun thread_steps :: "thread_step list \<Rightarrow> world \<Rightarrow> world" where
  "thread_steps [] w = w"
| "thread_steps (t # ts) w = thread_steps ts (do_step t w)"

datatype event = Input string | EndOfInput | Thread thread_step

fun main_loop :: "env \<Rightarrow> event list \<Rightarrow> world \<Rightarrow> outcome" where
  "main_loop e [] w = Continue w"
| "main_loop e (Input line # es) w =
     (case handle_cmd e (py_strip line) w of
        Continue w' \<Rightarrow> main_loop e es w'
      | r \<Rightarrow> r)"
| "main_loop e (EndOfInput # es) w = Raise EOFError w"
| "main_loop e (Thread t # es) w = main_loop e es (do_step t w)"

text \<open>
  \<^verbatim>\<open>main\<close> after \<^verbatim>\<open>init_app\<close> has returned the sound, the delay, the volume and the
  configuration: the sound file must exist, else a message and \<^verbatim>\<open>exit(1)\<close>; then the
  controller is built and the loop runs.
\<close>

definition main ::
  "env \<Rightarrow> string \<Rightarrow> int \<Rightarrow> int \<Rightarrow> msg list \<Rightarrow> (string \<rightharpoonup> string) \<Rightarrow>
     (string \<rightharpoonup> string) option \<Rightarrow> event list \<Rightarrow> (py_exc \<times> msg list) + outcome" where
  "main e s d v printed cfg file es =
     (if \<not> validate_sound e s then Inl (SystemExit 1, printed @ [InvalidConfigSound])
      else case BeepController_init e s d v printed cfg file of
             Inl x \<Rightarrow> Inl x
           | Inr w \<Rightarrow> Inr (main_loop e es w))"

subsection \<open>The timer on its own\<close>




subsection \<open>Predicates on states\<close>

text \<open>
  A thread is pending when it waits with its event unset (it will fire), in flight when
  it is committed to the call, live when either.
\<close>

definition pending :: "py_timer \<Rightarrow> bool" where
  "pending t \<longleftrightarrow> phase t = Waiting \<and> \<not> finished t"

definition in_flight :: "py_timer \<Rightarrow> bool" where
  "in_flight t \<longleftrightarrow> phase t = Called"

definition live :: "py_timer \<Rightarrow> bool" where
  "live t \<longleftrightarrow> pending t \<or> in_flight t"

definition vol_ok :: "world \<Rightarrow> bool" where
  "vol_ok w \<longleftrightarrow> 0 \<le> volume (beeper w) \<and> volume (beeper w) \<le> 100"

definition gains_ok :: "world \<Rightarrow> bool" where
  "gains_ok w \<longleftrightarrow> list_all (\<lambda>p. 0 \<le> snd p \<and> snd p \<le> 1) (played w)"

text \<open>Every live thread is the one the \<^verbatim>\<open>RepeatTimer\<close> holds in \<^verbatim>\<open>_timer\<close>.\<close>

definition owned :: "world \<Rightarrow> bool" where
  "owned w \<longleftrightarrow>
     (\<forall>h < length (threads w). live (threads w ! h) \<longrightarrow>
        timer_obj (timer (beeper w)) = Some h)"



text \<open>No thread is live: nothing is scheduled and nothing is in flight.\<close>

definition quiet :: "world \<Rightarrow> bool" where
  "quiet w \<longleftrightarrow> list_all (\<lambda>t. \<not> live t) (threads w)"


text \<open>A running example: the defaults of the configuration, every load succeeding.\<close>

definition env0 :: env where
  "env0 = \<lparr>loadable = (\<lambda>p. True), isabs = (\<lambda>p. False), isfile = (\<lambda>p. True),
           join_script_dir = (\<lambda>p. ''/app/'' @ p), can_write = True,
           max_str_digits = 4300\<rparr>"

definition cfg0 :: "string \<rightharpoonup> string" where
  "cfg0 = [''sound'' \<mapsto> ''beep.wav'', ''delay'' \<mapsto> ''7'', ''volume'' \<mapsto> ''20'']"

definition world0 :: world where
  "world0 = RepeatTimer_start
     \<lparr>threads = [],
      beeper = \<lparr>sound = ''beep.wav'', delay = 7, volume = 20, paused = False,
                timer = \<lparr>interval = 7, timer_obj = None, is_running = False\<rparr>\<rparr>,
      mixer_loaded = Some ''beep.wav'', mixer_volume = 1, played = [],
      out = [], config = cfg0, config_file = Some cfg0, uncaught = []\<rparr>"

section \<open>Properties\<close>

lemmas timer_defs =
  upd_timer_def Timer_cancel_def RepeatTimer_start_def RepeatTimer_stop_def
  RepeatTimer_run_def Timer_wake_def Timer_call_def fire_def BeepController_stop_def

lemmas ctrl_defs =
  print_def info_def dong_def set_volume_def set_delay_def set_sound_def pause_def
  resume_def

lemmas phase_defs = live_def pending_def in_flight_def

subsection \<open>The running example\<close>

lemma world0_fields:
  "threads world0 = [\<lparr>t_interval = 7, finished = False, phase = Waiting\<rparr>]"
  "beeper world0 = \<lparr>sound = ''beep.wav'', delay = 7, volume = 20, paused = False,
     timer = \<lparr>interval = 7, timer_obj = Some 0, is_running = True\<rparr>\<rparr>"
  "mixer_loaded world0 = Some ''beep.wav''"
  "mixer_volume world0 = 1"
  "played world0 = []"
  "out world0 = []"
  "config world0 = cfg0"
  "config_file world0 = Some cfg0"
  "uncaught world0 = []"
  by (simp_all add: world0_def RepeatTimer_start_def upd_timer_def)

lemma world0_init:
  "BeepController_init env0 ''beep.wav'' 7 20 [] cfg0 (Some cfg0) = Inr world0"
  by (simp add: BeepController_init_def env0_def world0_def)

subsection \<open>\<^verbatim>\<open>start()\<close> on a running timer\<close>

text \<open>
  Claim C6. Calling \<^verbatim>\<open>start()\<close> on a \<^verbatim>\<open>RepeatTimer\<close> whose \<^verbatim>\<open>is_running\<close> is set changes
  nothing: the interval, the flag, the thread held in \<^verbatim>\<open>_timer\<close> and every other part of
  the state are as before.
\<close>

theorem start_when_running:
  "is_running (timer (beeper w)) \<Longrightarrow> RepeatTimer_start w = w"
  by (simp add: RepeatTimer_start_def)

theorem start_when_running_witness:
  "is_running (timer (beeper world0)) \<and> RepeatTimer_start world0 = world0"
  using start_when_running [of world0] by (simp add: world0_fields)

subsection \<open>What the callback and the steps of a thread change\<close>

lemma float_ok_percent: "0 \<le> v \<Longrightarrow> v \<le> 100 \<Longrightarrow> float_ok v"
  by (simp add: float_ok_def)

lemma dong_frame:
  "threads (state_of (dong w)) = threads w"
  "beeper (state_of (dong w)) = beeper w"
  "mixer_loaded (state_of (dong w)) = mixer_loaded w"
  "uncaught (state_of (dong w)) = uncaught w"
  "out (state_of (dong w)) = out w"
  by (simp_all add: dong_def)

lemma played_dong:
  "played (state_of (dong w)) =
     (if \<not> paused (beeper w) \<and> float_ok (volume (beeper w))
      then played w @ [(mixer_loaded w, of_int (volume (beeper w)) / 100)]
      else played w)"
  by (simp add: dong_def)

lemma wake_effect:
  "timer (beeper (Timer_wake h w)) = timer (beeper w) \<and>
   length (threads (Timer_wake h w)) = length (threads w) \<and>
   (\<forall>i < length (threads w). live (threads (Timer_wake h w) ! i) = live (threads w ! i)) \<and>
   (\<forall>i < length (threads w). pending (threads (Timer_wake h w) ! i) \<longrightarrow> pending (threads w ! i)) \<and>
   (\<forall>i < length (threads w). in_flight (threads w ! i) \<longrightarrow> in_flight (threads (Timer_wake h w) ! i))"
  by (simp add: Timer_wake_def nth_list_update phase_defs)

lemma wake_frame:
  "played (Timer_wake h w) = played w \<and> beeper (Timer_wake h w) = beeper w \<and>
   mixer_loaded (Timer_wake h w) = mixer_loaded w"
  by (simp add: Timer_wake_def)

lemma wake_pending:
  "h < length (threads w) \<Longrightarrow> pending (threads w ! h) \<Longrightarrow>
   in_flight (threads (Timer_wake h w) ! h) \<and>
   (\<forall>i < length (threads w). i \<noteq> h \<longrightarrow> threads (Timer_wake h w) ! i = threads w ! i)"
  by (simp add: Timer_wake_def phase_defs)

lemma call_idle:
  "\<not> (h < length (threads w) \<and> in_flight (threads w ! h)) \<Longrightarrow> Timer_call h w = w"
  by (auto simp: Timer_call_def in_flight_def)

text \<open>
  The call of a thread in flight: the thread ends, one new thread is appended, pending,
  and becomes \<^verbatim>\<open>_timer\<close>; the log of playbacks grows as \<^verbatim>\<open>dong\<close> says.
\<close>

lemma run_cases:
  "RepeatTimer_run w =
     Returns (state_of (RepeatTimer_run w)) \<or>
   RepeatTimer_run w = Raises OverflowError (state_of (RepeatTimer_run w))"
  by (simp add: RepeatTimer_run_def dong_def)

lemma run_effect:
  "threads (state_of (RepeatTimer_run w)) =
     threads w @ [\<lparr>t_interval = interval (timer (beeper w)), finished = False, phase = Waiting\<rparr>]"
  "timer (beeper (state_of (RepeatTimer_run w))) =
     (timer (beeper w))\<lparr>timer_obj := Some (length (threads w)), is_running := True\<rparr>"
  "played (state_of (RepeatTimer_run w)) = played (state_of (dong w))"
  "paused (beeper (state_of (RepeatTimer_run w))) = paused (beeper w)"
  "volume (beeper (state_of (RepeatTimer_run w))) = volume (beeper w)"
  "mixer_loaded (state_of (RepeatTimer_run w)) = mixer_loaded w"
  by (simp_all add: RepeatTimer_run_def RepeatTimer_start_def upd_timer_def dong_def)

lemma call_effect:
  assumes "h < length (threads w)" and "in_flight (threads w ! h)"
  shows "length (threads (Timer_call h w)) = Suc (length (threads w))"
    and "phase (threads (Timer_call h w) ! h) = Ended"
    and "\<forall>i < length (threads w). i \<noteq> h \<longrightarrow> threads (Timer_call h w) ! i = threads w ! i"
    and "threads (Timer_call h w) ! length (threads w) =
           \<lparr>t_interval = interval (timer (beeper w)), finished = False, phase = Waiting\<rparr>"
    and "timer (beeper (Timer_call h w)) =
           (timer (beeper w))\<lparr>timer_obj := Some (length (threads w)), is_running := True\<rparr>"
    and "played (Timer_call h w) = played (state_of (dong w))"
    and "paused (beeper (Timer_call h w)) = paused (beeper w)"
    and "volume (beeper (Timer_call h w)) = volume (beeper w)"
    and "mixer_loaded (Timer_call h w) = mixer_loaded w"
proof -
  have c: "h < length (threads w) \<and> phase (threads w ! h) = Called"
    using assms by (simp add: in_flight_def)
  from run_cases [of w]
  have "Timer_call h w =
      (state_of (RepeatTimer_run w))\<lparr>threads := (threads (state_of (RepeatTimer_run w)))
         [h := (threads (state_of (RepeatTimer_run w)) ! h)\<lparr>finished := True, phase := Ended\<rparr>]\<rparr>
    \<or> Timer_call h w =
      (state_of (RepeatTimer_run w))\<lparr>threads := (threads (state_of (RepeatTimer_run w)))
         [h := (threads (state_of (RepeatTimer_run w)) ! h)\<lparr>phase := Ended\<rparr>],
         uncaught := uncaught (state_of (RepeatTimer_run w)) @ [OverflowError]\<rparr>"
  proof
    assume r: "RepeatTimer_run w = Returns (state_of (RepeatTimer_run w))"
    show ?thesis
      by (rule disjI1) (simp add: Timer_call_def c, subst r, simp)
  next
    assume r: "RepeatTimer_run w = Raises OverflowError (state_of (RepeatTimer_run w))"
    show ?thesis
      by (rule disjI2) (simp add: Timer_call_def c, subst r, simp)
  qed
  then show "length (threads (Timer_call h w)) = Suc (length (threads w))"
    and "phase (threads (Timer_call h w) ! h) = Ended"
    and "\<forall>i < length (threads w). i \<noteq> h \<longrightarrow> threads (Timer_call h w) ! i = threads w ! i"
    and "threads (Timer_call h w) ! length (threads w) =
           \<lparr>t_interval = interval (timer (beeper w)), finished = False, phase = Waiting\<rparr>"
    and "timer (beeper (Timer_call h w)) =
           (timer (beeper w))\<lparr>timer_obj := Some (length (threads w)), is_running := True\<rparr>"
    and "played (Timer_call h w) = played (state_of (dong w))"
    and "paused (beeper (Timer_call h w)) = paused (beeper w)"
    and "volume (beeper (Timer_call h w)) = volume (beeper w)"
    and "mixer_loaded (Timer_call h w) = mixer_loaded w"
    using assms(1) by (auto simp: run_effect nth_append nth_list_update)
qed

lemma played_fire:
  assumes "h < length (threads w)" and "pending (threads w ! h)"
  shows "played (fire h w) = played (state_of (dong w))"
proof -
  have a: "h < length (threads (Timer_wake h w))" "in_flight (threads (Timer_wake h w) ! h)"
    using assms wake_effect [of h w] wake_pending [of h w] by simp_all
  show ?thesis
    unfolding fire_def call_effect(6) [OF a]
    using wake_frame [of h w] by (simp add: played_dong)
qed

subsection \<open>The gain of a fire\<close>

text \<open>
  A volume within 0 to 100 and a log of gains within 0 to 1 stay so through every step
  of a timer thread and every command: \<^verbatim>\<open>-v\<close> is the only command that changes the
  volume, and it refuses what is out of range.
\<close>

lemma dong_ok:
  "vol_ok w \<Longrightarrow> gains_ok w \<Longrightarrow> vol_ok (state_of (dong w)) \<and> gains_ok (state_of (dong w))"
  by (simp add: vol_ok_def gains_ok_def played_dong dong_frame)

lemma wake_ok:
  "vol_ok w \<Longrightarrow> gains_ok w \<Longrightarrow> vol_ok (Timer_wake h w) \<and> gains_ok (Timer_wake h w)"
  by (simp add: vol_ok_def gains_ok_def Timer_wake_def)

lemma call_ok:
  assumes "vol_ok w" and "gains_ok w"
  shows "vol_ok (Timer_call h w) \<and> gains_ok (Timer_call h w)"
proof (cases "h < length (threads w) \<and> in_flight (threads w ! h)")
  case False
  then show ?thesis using assms call_idle [of h w] by simp
next
  case True
  then have h: "h < length (threads w)" "in_flight (threads w ! h)" by simp_all
  show ?thesis
    using dong_ok [OF assms] call_effect(6,8) [OF h]
    by (simp add: vol_ok_def gains_ok_def dong_frame)
qed

lemma step_ok:
  "vol_ok w \<Longrightarrow> gains_ok w \<Longrightarrow> vol_ok (do_step t w) \<and> gains_ok (do_step t w)"
  by (cases t) (simp_all add: wake_ok call_ok)

lemma cmd_volume_ok:
  "vol_ok w \<Longrightarrow> gains_ok w \<Longrightarrow>
   vol_ok (world_of (cmd_volume e c w)) \<and> gains_ok (world_of (cmd_volume e c w))"
  by (simp add: vol_ok_def gains_ok_def cmd_volume_def print_def info_def set_volume_def
      set_config_def write_config_def Let_def split: list.splits option.splits)

lemma cmd_delay_ok:
  "vol_ok w \<Longrightarrow> gains_ok w \<Longrightarrow>
   vol_ok (world_of (cmd_delay e c w)) \<and> gains_ok (world_of (cmd_delay e c w))"
  by (simp add: vol_ok_def gains_ok_def cmd_delay_def print_def info_def set_delay_def
      upd_timer_def set_config_def write_config_def Let_def split: list.splits option.splits)

lemma cmd_sound_ok:
  "vol_ok w \<Longrightarrow> gains_ok w \<Longrightarrow>
   vol_ok (world_of (cmd_sound e c w)) \<and> gains_ok (world_of (cmd_sound e c w))"
  by (simp add: vol_ok_def gains_ok_def cmd_sound_def print_def set_sound_def set_config_def
      write_config_def Let_def split: list.splits option.splits)

lemma stop_ok:
  "vol_ok w \<Longrightarrow> gains_ok w \<Longrightarrow>
   vol_ok (BeepController_stop w) \<and> gains_ok (BeepController_stop w)"
  by (simp add: vol_ok_def gains_ok_def BeepController_stop_def RepeatTimer_stop_def
      Timer_cancel_def upd_timer_def split: option.splits)

lemma print_ok:
  "vol_ok (print m w) = vol_ok w" "gains_ok (print m w) = gains_ok w"
  by (simp_all add: vol_ok_def gains_ok_def print_def)

lemma pause_resume_ok:
  "vol_ok (pause w) = vol_ok w" "gains_ok (pause w) = gains_ok w"
  "vol_ok (resume w) = vol_ok w" "gains_ok (resume w) = gains_ok w"
  by (simp_all add: vol_ok_def gains_ok_def print_def pause_def resume_def)

lemma handle_ok:
  "vol_ok w \<Longrightarrow> gains_ok w \<Longrightarrow>
   vol_ok (world_of (handle_cmd e c w)) \<and> gains_ok (world_of (handle_cmd e c w))"
  unfolding handle_cmd_def
  by (simp add: cmd_volume_ok cmd_delay_ok cmd_sound_ok stop_ok print_ok pause_resume_ok)

lemma main_loop_ok:
  "vol_ok w \<Longrightarrow> gains_ok w \<Longrightarrow>
   vol_ok (world_of (main_loop e es w)) \<and> gains_ok (world_of (main_loop e es w))"
proof (induction es arbitrary: w)
  case Nil
  then show ?case by simp
next
  case (Cons ev es)
  show ?case
  proof (cases ev)
    case (Input line)
    from handle_ok [OF Cons.prems, of e "py_strip line"]
    show ?thesis using Input Cons.IH
      by (cases "handle_cmd e (py_strip line) w") auto
  next
    case EndOfInput
    then show ?thesis using Cons.prems by simp
  next
    case (Thread t)
    then show ?thesis using Cons.IH step_ok [OF Cons.prems] by simp
  qed
qed

lemma set_volume_frame:
  "volume (beeper (set_volume v w)) = v"
  "paused (beeper (set_volume v w)) = paused (beeper w)"
  "played (set_volume v w) = played w"
  "mixer_loaded (set_volume v w) = mixer_loaded w"
  "threads (set_volume v w) = threads w"
  by (simp_all add: set_volume_def info_def print_def)

lemma set_volume_ok:
  "0 \<le> v \<Longrightarrow> v \<le> 100 \<Longrightarrow> vol_ok (set_volume v w)"
  "gains_ok (set_volume v w) = gains_ok w"
  by (simp_all add: vol_ok_def gains_ok_def set_volume_frame)

text \<open>
  Claim C4. For an integer \<open>v\<close> with \<open>0 \<le> v \<le> 100\<close>: after \<^verbatim>\<open>set_volume(v)\<close> an unpaused
  fire (the callback \<^verbatim>\<open>dong\<close>, and the fire of any pending timer thread) returns having
  made one playback call, at gain \<open>v / 100\<close>, which lies in \<open>[0, 1]\<close>; from then on,
  whatever commands and timer steps follow, no playback is ever logged at a gain outside
  \<open>[0, 1]\<close> (given none was before); and while \<^verbatim>\<open>paused\<close> is set the callback plays nothing
  and returns the whole state as it is.
\<close>

theorem volume_in_range_gain:
  assumes "0 \<le> v" and "v \<le> 100"
  shows "(\<not> paused (beeper w) \<longrightarrow>
            dong (set_volume v w) =
              Returns ((set_volume v w)\<lparr>mixer_volume := of_int v / 100,
                 played := played w @ [(mixer_loaded w, of_int v / 100)]\<rparr>) \<and>
            played (state_of (dong (set_volume v w))) =
              played w @ [(mixer_loaded w, of_int v / 100)] \<and>
            (\<forall>h < length (threads w). pending (threads w ! h) \<longrightarrow>
               played (fire h (set_volume v w)) =
                 played w @ [(mixer_loaded w, of_int v / 100)])) \<and>
         (0::rat) \<le> of_int v / 100 \<and> (of_int v / 100 :: rat) \<le> 1 \<and>
         (gains_ok w \<longrightarrow> gains_ok (world_of (main_loop e es (set_volume v w)))) \<and>
         (paused (beeper w) \<longrightarrow> dong w = Returns w)"
proof -
  note f = float_ok_percent [OF assms]
  have d: "dong (set_volume v w) =
      Returns ((set_volume v w)\<lparr>mixer_volume := of_int v / 100,
         played := played w @ [(mixer_loaded w, of_int v / 100)]\<rparr>)"
    if "\<not> paused (beeper w)"
    using that f by (simp add: dong_def set_volume_frame)
  have fire_eq: "played (fire h (set_volume v w)) = played (state_of (dong (set_volume v w)))"
    if "h < length (threads w)" "pending (threads w ! h)" for h
    using that played_fire [of h "set_volume v w"] by (simp add: set_volume_frame)
  have g: "gains_ok (world_of (main_loop e es (set_volume v w)))" if "gains_ok w"
    using main_loop_ok [of "set_volume v w" e es] set_volume_ok [of v w] assms that by simp
  have p: "dong w = Returns w" if "paused (beeper w)"
    using that by (simp add: dong_def)
  show ?thesis
    using assms d fire_eq g p by simp
qed

theorem volume_in_range_gain_witness:
  "(0::int) \<le> 50 \<and> (50::int) \<le> 100 \<and>
   played (state_of (dong (set_volume 50 world0))) = [(Some ''beep.wav'', 1 / 2)] \<and>
   played (fire 0 (set_volume 50 world0)) = [(Some ''beep.wav'', 1 / 2)] \<and>
   gains_ok (world_of (main_loop env0
      [Input ''-v 100'', Thread (Wake 0), Thread (Call 0)] (set_volume 50 world0))) \<and>
   dong (pause world0) = Returns (pause world0)"
proof -
  have a: "(0::int) \<le> 50" and b: "(50::int) \<le> 100" by simp_all
  have p: "paused (beeper (pause world0))" by (simp add: pause_def print_def)
  have g: "gains_ok world0" by (simp add: gains_ok_def world0_fields)
  have q: "pending (threads world0 ! 0)" by (simp add: pending_def world0_fields)
  show ?thesis
    using volume_in_range_gain [OF a b, of world0 env0
        "[Input ''-v 100'', Thread (Wake 0), Thread (Call 0)]"]
      volume_in_range_gain [OF a b, of "pause world0"] p g q
    by (simp add: world0_fields)
qed

text \<open>
  Claim C9, as amended. \<^verbatim>\<open>set_volume\<close> neither validates nor clamps: for every integer
  \<open>v\<close> it stores exactly \<open>v\<close>. When \<open>v\<close> converts to a float (its magnitude is below
  \<open>2 ^ 1024 - 2 ^ 970\<close>), an unpaused fire after it asks the mixer for gain \<open>v / 100\<close>,
  and for \<open>v < 0\<close> or \<open>v > 100\<close> that gain is outside \<open>[0, 1]\<close>. When \<open>v\<close> does not
  convert, the fire raises \<^verbatim>\<open>OverflowError\<close> and nothing is played.
\<close>

theorem set_volume_unchecked:
  "volume (beeper (set_volume v w)) = v \<and>
   (\<not> paused (beeper w) \<and> float_ok v \<longrightarrow>
      dong (set_volume v w) =
        Returns ((set_volume v w)\<lparr>mixer_volume := of_int v / 100,
           played := played w @ [(mixer_loaded w, of_int v / 100)]\<rparr>)) \<and>
   (\<not> paused (beeper w) \<and> \<not> float_ok v \<longrightarrow>
      dong (set_volume v w) = Raises OverflowError (set_volume v w) \<and>
      played (set_volume v w) = played w) \<and>
   (v < 0 \<or> 100 < v \<longrightarrow> \<not> ((0::rat) \<le> of_int v / 100 \<and> (of_int v / 100 :: rat) \<le> 1))"
  by (auto simp: dong_def set_volume_frame)

theorem set_volume_unchecked_witness:
  "volume (beeper (set_volume 150 world0)) = 150 \<and> float_ok 150 \<and>
   played (state_of (dong (set_volume 150 world0))) = [(Some ''beep.wav'', 3 / 2)] \<and>
   \<not> ((0::rat) \<le> 3 / 2 \<and> (3 / 2 :: rat) \<le> 1) \<and>
   float_ok (- 1) \<and>
   played (state_of (dong (set_volume (- 1) world0))) = [(Some ''beep.wav'', - (1 / 100))] \<and>
   \<not> float_ok (2 ^ 1024) \<and>
   dong (set_volume (2 ^ 1024) world0) = Raises OverflowError (set_volume (2 ^ 1024) world0)"
proof -
  have f: "float_ok 150" "float_ok (- 1)" "\<not> float_ok (2 ^ 1024)"
    by (simp_all add: float_ok_def)
  have p: "\<not> paused (beeper world0)" by (simp add: world0_fields)
  from set_volume_unchecked [of 150 world0] f(1) p
  have a: "volume (beeper (set_volume 150 world0)) = 150"
    "played (state_of (dong (set_volume 150 world0))) = [(Some ''beep.wav'', 3 / 2)]"
    by (simp_all add: world0_fields)
  from set_volume_unchecked [of "- 1" world0] f(2) p
  have b: "played (state_of (dong (set_volume (- 1) world0))) =
      [(Some ''beep.wav'', - (1 / 100))]"
    by (simp add: world0_fields)
  from set_volume_unchecked [of "2 ^ 1024" world0] f(3) p
  have c: "dong (set_volume (2 ^ 1024) world0) =
      Raises OverflowError (set_volume (2 ^ 1024) world0)"
    by blast
  show ?thesis using a b c f by simp
qed

text \<open>
  Claim C9 as stated fails for an integer too large for a float: with the volume set to
  \<open>2 ^ 1024\<close> the division in \<^verbatim>\<open>dong\<close> raises, no playback is requested at any gain, and
  the timer thread that made the call ends with the exception.
\<close>

theorem huge_volume_counterexample:
  "volume (beeper (set_volume (2 ^ 1024) world0)) = 2 ^ 1024 \<and>
   \<not> paused (beeper (set_volume (2 ^ 1024) world0)) \<and>
   dong (set_volume (2 ^ 1024) world0) = Raises OverflowError (set_volume (2 ^ 1024) world0) \<and>
   played (fire 0 (set_volume (2 ^ 1024) world0)) = [] \<and>
   uncaught (fire 0 (set_volume (2 ^ 1024) world0)) = [OverflowError]"
proof -
  have f: "\<not> float_ok (2 ^ 1024)" by (simp add: float_ok_def)
  have v: "volume (beeper (set_volume (2 ^ 1024) world0)) = 2 ^ 1024"
    and p: "\<not> paused (beeper (set_volume (2 ^ 1024) world0))"
    by (simp_all add: set_volume_frame world0_fields)
  have d: "dong (set_volume (2 ^ 1024) world0) =
      Raises OverflowError (set_volume (2 ^ 1024) world0)"
    using f v p by (simp add: dong_def)
  have t: "threads (set_volume (2 ^ 1024) world0) ! 0 =
      \<lparr>t_interval = 7, finished = False, phase = Waiting\<rparr>"
    "length (threads (set_volume (2 ^ 1024) world0)) = 1"
    by (simp_all add: set_volume_frame world0_fields)
  have pl: "played (fire 0 (set_volume (2 ^ 1024) world0)) = []"
    using played_fire [of 0 "set_volume (2 ^ 1024) world0"] t d
    by (simp add: pending_def set_volume_frame world0_fields)
  have u: "uncaught (fire 0 (set_volume (2 ^ 1024) world0)) = [OverflowError]"
    using f v p t
    by (simp add: fire_def Timer_wake_def Timer_call_def RepeatTimer_run_def
        RepeatTimer_start_def upd_timer_def dong_def set_volume_def info_def print_def
        world0_fields)
  show ?thesis using v p d pl u by simp
qed

subsection \<open>\<^verbatim>\<open>set_sound\<close> when the load fails\<close>

text \<open>
  Claim C2 says that a failed \<^verbatim>\<open>set_sound(p)\<close> leaves the whole controller as it was,
  the stored sound still naming the loaded one. The code assigns \<^verbatim>\<open>self.sound\<close> before
  it calls \<^verbatim>\<open>mixer.music.load\<close>: when the load fails, the state is the old one with
  the error message printed and with \<open>sound\<close> overwritten by the rejected path \<open>p\<close>; the
  mixer keeps the sound it had, which is what the next unpaused fire plays (at the
  volume set, when that converts to a float), and every other field is as before.
\<close>

theorem set_sound_load_failure:
  "\<not> loadable e p \<Longrightarrow>
   set_sound e p w = print (ErrorLoadingSound p) (w\<lparr>beeper := (beeper w)\<lparr>sound := p\<rparr>\<rparr>) \<and>
   sound (beeper (set_sound e p w)) = p \<and>
   mixer_loaded (set_sound e p w) = mixer_loaded w \<and>
   (\<not> paused (beeper w) \<longrightarrow>
      played (state_of (dong (set_sound e p w))) =
        (if float_ok (volume (beeper w))
         then played w @ [(mixer_loaded w, of_int (volume (beeper w)) / 100)]
         else played w))"
  by (simp add: set_sound_def print_def dong_def)

theorem set_sound_load_failure_witness:
  "\<not> loadable (env0\<lparr>loadable := (\<lambda>p. p = ''beep.wav'')\<rparr>) ''bad.wav'' \<and>
   sound (beeper world0) = ''beep.wav'' \<and>
   sound (beeper (set_sound (env0\<lparr>loadable := (\<lambda>p. p = ''beep.wav'')\<rparr>) ''bad.wav'' world0))
     = ''bad.wav'' \<and>
   mixer_loaded (set_sound (env0\<lparr>loadable := (\<lambda>p. p = ''beep.wav'')\<rparr>) ''bad.wav'' world0)
     = Some ''beep.wav'' \<and>
   played (state_of
      (dong (set_sound (env0\<lparr>loadable := (\<lambda>p. p = ''beep.wav'')\<rparr>) ''bad.wav'' world0)))
     = [(Some ''beep.wav'', 1 / 5)]"
proof -
  have f: "float_ok 20" by (simp add: float_ok_def)
  show ?thesis
    using set_sound_load_failure
      [of "env0\<lparr>loadable := (\<lambda>p. p = ''beep.wav'')\<rparr>" "''bad.wav''" world0] f
    by (simp add: world0_fields print_def dong_def)
qed

subsection \<open>The command \<^verbatim>\<open>-d\<close>\<close>

text \<open>
  Claim C3 says that \<^verbatim>\<open>-d\<close> rejects a value that is not greater than 0. The branch has
  no range test: whenever the second word of the command reads as an integer \<open>n\<close>, of
  any sign, \<^verbatim>\<open>set_delay(n)\<close> is called, the configuration is updated and written, and
  no error is printed.
\<close>

theorem delay_any_integer:
  assumes "startswith cmd ''-d ''" and "py_split cmd = a # tok # rest"
    and "py_int e tok = Some n" and "can_write e"
  shows "handle_cmd e cmd w =
           Continue (write_config (set_config ''delay'' (py_str n) (set_delay n w)))"
proof -
  have "\<not> startswith cmd ''-v ''"
    using assms(1) by (auto simp: startswith_def)
  then show ?thesis
    using assms by (simp add: handle_cmd_def cmd_delay_def)
qed

lemma split_d0: "py_split ''-d 0'' = [''-d'', ''0'']"
  by (simp add: py_split_def py_isspace_def)

lemma split_dm5: "py_split ''-d -5'' = [''-d'', ''-5'']"
  by (simp add: py_split_def py_isspace_def)

lemma int_0: "py_int env0 ''0'' = Some 0"
  by (simp add: py_int_def int_isspace_def digit_val_def too_many_digits_def env0_def)

lemma int_m5: "py_int env0 ''-5'' = Some (- 5)"
  by (simp add: py_int_def int_isspace_def digit_val_def too_many_digits_def env0_def)

theorem delay_any_integer_witness:
  "handle_cmd env0 ''-d 0'' world0 =
     Continue (write_config (set_config ''delay'' ''0'' (set_delay 0 world0))) \<and>
   delay (beeper (world_of (handle_cmd env0 ''-d 0'' world0))) = 0 \<and>
   interval (timer (beeper (world_of (handle_cmd env0 ''-d 0'' world0)))) = 0 \<and>
   out (world_of (handle_cmd env0 ''-d 0'' world0)) = [Info 20 0] \<and>
   delay (beeper (world_of (handle_cmd env0 ''-d -5'' world0))) = - 5 \<and>
   interval (timer (beeper (world_of (handle_cmd env0 ''-d -5'' world0)))) = - 5"
proof -
  have s: "startswith ''-d 0'' ''-d ''" "startswith ''-d -5'' ''-d ''"
    by (simp_all add: startswith_def)
  have c: "can_write env0" by (simp add: env0_def)
  show ?thesis
    using delay_any_integer [OF s(1) split_d0 int_0 c, of world0]
      delay_any_integer [OF s(2) split_dm5 int_m5 c, of world0]
    by (simp add: py_str_def write_config_def set_config_def set_delay_def info_def print_def
        upd_timer_def world0_fields)
qed

text \<open>The numeral that \<^verbatim>\<open>str\<close> gives has no \<^verbatim>\<open>%\<close>, so the parser accepts it.\<close>

lemma digits_no_percent: "CHR ''%'' \<notin> set (digits n)"
proof (induction n rule: digits.induct)
  case (1 n)
  have d: "''0123456789'' ! k \<noteq> CHR ''%''" if "k < 10" for k
  proof -
    from that have "k \<in> {0, 1, 2, 3, 4, 5, 6, 7, 8, 9}" by auto
    then show ?thesis by auto
  qed
  show ?case
  proof (cases "n < 10")
    case True
    then show ?thesis using d [of n] by (subst digits.simps) simp
  next
    case False
    then show ?thesis
      using "1.IH" d [of "n mod 10"] by (subst digits.simps) simp
  qed
qed

lemma drop_escaped_subset: "set (drop_escaped s) \<subseteq> set s"
  by (induction s rule: drop_escaped.induct) auto

lemma after_key_subset:
  assumes "after_key s = Some rest"
  shows "set rest \<subseteq> set s"
proof (cases s)
  case Nil
  then show ?thesis using assms by (simp add: after_key_def)
next
  case (Cons a s')
  show ?thesis
  proof (cases s')
    case Nil
    then show ?thesis using assms Cons by (simp add: after_key_def)
  next
    case (Cons b cs)
    note s = \<open>s = a # s'\<close> Cons
    obtain p q where d: "dropWhile (\<lambda>c. c \<noteq> CHR '')'') cs = p # q # rest"
      using assms s by (simp add: after_key_def split: list.splits if_splits)
    have "set (dropWhile (\<lambda>c. c \<noteq> CHR '')'') cs) \<subseteq> set cs"
      by (auto dest: set_dropWhileD)
    then have "set rest \<subseteq> set cs" unfolding d by simp
    then show ?thesis using s by auto
  qed
qed

lemma drop_keys_subset: "set (drop_keys s) \<subseteq> set s"
proof (induction s rule: drop_keys.induct)
  case 1
  then show ?case by simp
next
  case (2 c cs)
  show ?case
  proof (cases "after_key (c # cs)")
    case None
    then show ?thesis using 2(1) [OF None] by auto
  next
    case (Some rest)
    then show ?thesis using 2(2) [OF Some] after_key_subset [OF Some] by auto
  qed
qed

lemma accepts_py_str: "config_accepts (py_str n)"
proof -
  have "CHR ''%'' \<notin> set (py_str n)"
    by (simp add: py_str_def digits_no_percent del: digits.simps)
  then show ?thesis
    unfolding config_accepts_def
    using drop_keys_subset [of "drop_escaped (py_str n)"] drop_escaped_subset [of "py_str n"]
    by blast
qed

lemma parse_digits_bad_char:
  "c \<in> set s \<Longrightarrow> digit_val c = None \<Longrightarrow> c \<noteq> CHR ''_'' \<Longrightarrow> parse_digits acc b s = None"
  by (induction s arbitrary: acc b) (auto split: option.splits)

lemma in_set_dropWhile:
  "x \<in> set xs \<Longrightarrow> \<not> P x \<Longrightarrow> x \<in> set (dropWhile P xs)"
  by (induction xs) auto

lemma in_set_int_strip:
  "c \<in> set s \<Longrightarrow> \<not> int_isspace c \<Longrightarrow>
   c \<in> set (rev (dropWhile int_isspace (rev (dropWhile int_isspace s))))"
  using in_set_dropWhile [of c "rev (dropWhile int_isspace s)" int_isspace]
    in_set_dropWhile [of c s int_isspace]
  by simp

lemma int_body_point:
  assumes "CHR ''.'' \<in> set t"
  shows "(case t of
            [] \<Rightarrow> None
          | c # cs \<Rightarrow>
              if too_many_digits e (c # cs) then None
              else if c = CHR ''-'' then map_option uminus (parse_digits 0 False cs)
              else if c = CHR ''+'' then parse_digits 0 False cs
              else parse_digits 0 False (c # cs)) = None"
proof (cases t)
  case Nil
  then show ?thesis by simp
next
  case (Cons c cs)
  have dv: "digit_val CHR ''.'' = None" by (simp add: digit_val_def)
  have whole: "parse_digits 0 False (c # cs) = None"
    using assms Cons parse_digits_bad_char [of "CHR ''.''" "c # cs" 0 False] dv by simp
  have tail: "parse_digits 0 False cs = None" if "c \<noteq> CHR ''.''"
    using that assms Cons parse_digits_bad_char [of "CHR ''.''" cs 0 False] dv by simp
  show ?thesis
    unfolding Cons using whole tail by (simp del: parse_digits.simps)
qed

lemma py_int_point: "CHR ''.'' \<in> set s \<Longrightarrow> py_int e s = None"
proof -
  assume a: "CHR ''.'' \<in> set s"
  have ns: "\<not> int_isspace CHR ''.''" by (simp add: int_isspace_def)
  from a ns have "CHR ''.'' \<in> set (rev (dropWhile int_isspace (rev (dropWhile int_isspace s))))"
    by (rule in_set_int_strip)
  then show ?thesis
    unfolding py_int_def by (rule int_body_point)
qed

text \<open>
  Claim C10. \<^verbatim>\<open>-d\<close> reads its argument with \<^verbatim>\<open>int\<close>: when the second word of the command
  is not an integer numeral (\<^verbatim>\<open>int\<close> raises \<^verbatim>\<open>ValueError\<close>), as for every word with a
  decimal point such as \<^verbatim>\<open>2.5\<close>, the command only prints the error message; the delay,
  the interval of the timer, the configuration and the configuration file are unchanged.
\<close>

theorem delay_not_an_integer:
  assumes "startswith cmd ''-d ''" and "py_split cmd = a # tok # rest"
  shows "(py_int e tok = None \<longrightarrow> handle_cmd e cmd w = Continue (print InvalidDelay w)) \<and>
         (CHR ''.'' \<in> set tok \<longrightarrow> py_int e tok = None) \<and>
         delay (beeper (print InvalidDelay w)) = delay (beeper w) \<and>
         interval (timer (beeper (print InvalidDelay w))) = interval (timer (beeper w)) \<and>
         config (print InvalidDelay w) = config w \<and>
         config_file (print InvalidDelay w) = config_file w"
proof -
  have "\<not> startswith cmd ''-v ''"
    using assms(1) by (auto simp: startswith_def)
  then show ?thesis
    using assms by (simp add: handle_cmd_def cmd_delay_def py_int_point print_def)
qed

lemma split_d25: "py_split ''-d 2.5'' = [''-d'', ''2.5'']"
  by (simp add: py_split_def py_isspace_def)

theorem delay_not_an_integer_witness:
  "startswith ''-d 2.5'' ''-d '' \<and> py_split ''-d 2.5'' = [''-d'', ''2.5''] \<and>
   py_int env0 ''2.5'' = None \<and>
   handle_cmd env0 ''-d 2.5'' world0 = Continue (print InvalidDelay world0) \<and>
   main_loop env0 [Input ''  -d 2.5 ''] world0 = Continue (print InvalidDelay world0) \<and>
   delay (beeper (print InvalidDelay world0)) = 7 \<and>
   interval (timer (beeper (print InvalidDelay world0))) = 7 \<and>
   config (print InvalidDelay world0) = cfg0 \<and>
   config_file (print InvalidDelay world0) = Some cfg0"
proof -
  have s: "startswith ''-d 2.5'' ''-d ''" by (simp add: startswith_def)
  have st: "py_strip ''  -d 2.5 '' = ''-d 2.5''" by (simp add: py_strip_def py_isspace_def)
  show ?thesis
    using delay_not_an_integer [OF s split_d25, of env0 world0] s split_d25 st
    by (simp add: world0_fields)
qed

subsection \<open>Every live thread is the one held in \<^verbatim>\<open>_timer\<close>\<close>


lemma stop_effect:
  "timer (beeper (RepeatTimer_stop w)) = (timer (beeper w))\<lparr>is_running := False\<rparr> \<and>
   length (threads (RepeatTimer_stop w)) = length (threads w) \<and>
   (\<forall>h < length (threads w).
      threads (RepeatTimer_stop w) ! h =
        (if timer_obj (timer (beeper w)) = Some h then (threads w ! h)\<lparr>finished := True\<rparr>
         else threads w ! h))"
  by (simp add: RepeatTimer_stop_def Timer_cancel_def upd_timer_def nth_list_update
      split: option.splits)

lemma owned_init:
  "BeepController_init e s d v printed cfg file = Inr w \<Longrightarrow> owned w"
  by (auto simp: BeepController_init_def owned_def RepeatTimer_start_def upd_timer_def
      split: if_splits)

lemma owned_wake: "owned w \<Longrightarrow> owned (Timer_wake h w)"
  using wake_effect [of h w] by (simp add: owned_def)

lemma owned_call:
  assumes "owned w"
  shows "owned (Timer_call h w)"
proof (cases "h < length (threads w) \<and> in_flight (threads w ! h)")
  case False
  then show ?thesis using assms call_idle [of h w] by simp
next
  case True
  then have h: "h < length (threads w)" "in_flight (threads w ! h)" by simp_all
  note eff = call_effect [OF h]
  have own: "timer_obj (timer (beeper w)) = Some h"
    using assms h by (simp add: owned_def live_def)
  show ?thesis
    unfolding owned_def
  proof (intro allI impI)
    fix i
    assume i: "i < length (threads (Timer_call h w))" and l: "live (threads (Timer_call h w) ! i)"
    have "i < length (threads w) \<or> i = length (threads w)" using i eff(1) by auto
    then show "timer_obj (timer (beeper (Timer_call h w))) = Some i"
    proof
      assume a: "i < length (threads w)"
      show ?thesis
      proof (cases "i = h")
        case True
        then show ?thesis using l eff(2) by (simp add: phase_defs)
      next
        case False
        then have "live (threads w ! i)" using l eff(3) a by simp
        then show ?thesis using assms a own False by (simp add: owned_def)
      qed
    next
      assume "i = length (threads w)"
      then show ?thesis using eff(5) by simp
    qed
  qed
qed

lemma owned_step: "owned w \<Longrightarrow> owned (do_step t w)"
  by (cases t) (simp_all add: owned_wake owned_call)

lemma owned_timer_stop:
  assumes "owned w"
  shows "owned (RepeatTimer_stop w)"
  unfolding owned_def
proof (intro allI impI)
  fix i
  assume "i < length (threads (RepeatTimer_stop w))" and l: "live (threads (RepeatTimer_stop w) ! i)"
  then have i: "i < length (threads w)" using stop_effect [of w] by simp
  have "live (threads w ! i)"
    using l stop_effect [of w] i by (auto simp: phase_defs split: if_splits)
  then show "timer_obj (timer (beeper (RepeatTimer_stop w))) = Some i"
    using assms i stop_effect [of w] by (simp add: owned_def)
qed

lemma owned_stop: "owned w \<Longrightarrow> owned (BeepController_stop w)"
  by (simp add: BeepController_stop_def owned_timer_stop)

lemma owned_frame:
  "threads w' = threads w \<Longrightarrow> timer_obj (timer (beeper w')) = timer_obj (timer (beeper w)) \<Longrightarrow>
   owned w' = owned w"
  by (simp add: owned_def)

lemma owned_print [simp]: "owned (print m w) = owned w"
  by (rule owned_frame) (simp_all add: print_def)

lemma owned_cmd_volume: "owned w \<Longrightarrow> owned (world_of (cmd_volume e c w))"
  by (simp add: cmd_volume_def Let_def split: list.splits option.splits)
     (simp add: owned_def print_def info_def set_volume_def set_config_def write_config_def)

lemma owned_cmd_delay: "owned w \<Longrightarrow> owned (world_of (cmd_delay e c w))"
  by (simp add: cmd_delay_def Let_def split: list.splits option.splits)
     (simp add: owned_def print_def info_def set_delay_def upd_timer_def set_config_def
        write_config_def)

lemma owned_cmd_sound: "owned w \<Longrightarrow> owned (world_of (cmd_sound e c w))"
  by (simp add: cmd_sound_def Let_def split: list.splits option.splits)
     (simp add: owned_def print_def set_sound_def set_config_def write_config_def Let_def)

lemma owned_pause_resume: "owned (pause w) = owned w" "owned (resume w) = owned w"
  by (simp_all add: owned_def pause_def resume_def print_def)

lemma owned_handle: "owned w \<Longrightarrow> owned (world_of (handle_cmd e c w))"
  unfolding handle_cmd_def
  by (simp add: owned_cmd_volume owned_cmd_delay owned_cmd_sound owned_pause_resume owned_stop)

lemma owned_main_loop: "owned w \<Longrightarrow> owned (world_of (main_loop e es w))"
proof (induction es arbitrary: w)
  case Nil
  then show ?case by simp
next
  case (Cons ev es)
  show ?case
  proof (cases ev)
    case (Input line)
    from owned_handle [OF Cons.prems, of e "py_strip line"]
    show ?thesis using Input Cons.IH
      by (cases "handle_cmd e (py_strip line) w") auto
  next
    case EndOfInput
    then show ?thesis using Cons.prems by simp
  next
    case (Thread t)
    then show ?thesis using Cons.IH owned_step [OF Cons.prems] by simp
  qed
qed

subsection \<open>The timer on its own\<close>
















lemmas eval_defs =
  Timer_wake_def Timer_call_def RepeatTimer_run_def RepeatTimer_start_def RepeatTimer_stop_def
  Timer_cancel_def upd_timer_def dong_def float_ok_def in_flight_def



subsection \<open>After \<^verbatim>\<open>stop()\<close>\<close>

lemma quiet_nth: "quiet w \<longleftrightarrow> (\<forall>i < length (threads w). \<not> live (threads w ! i))"
  by (simp add: quiet_def list_all_length)

lemma stop_quiet:
  assumes "owned w" and "list_all (\<lambda>t. \<not> in_flight t) (threads w)"
  shows "quiet (BeepController_stop w)"
  unfolding quiet_nth BeepController_stop_def
proof (intro allI impI)
  fix i
  assume "i < length (threads (RepeatTimer_stop w))"
  then have i: "i < length (threads w)" using stop_effect [of w] by simp
  have nf: "\<not> in_flight (threads w ! i)"
    using assms(2) i by (simp add: list_all_length)
  have own: "live (threads w ! i) \<longrightarrow> timer_obj (timer (beeper w)) = Some i"
    using assms(1) i by (simp add: owned_def)
  show "\<not> live (threads (RepeatTimer_stop w) ! i)"
    using stop_effect [of w] i nf own by (auto simp: phase_defs)
qed

lemma quiet_wake:
  "quiet w \<Longrightarrow> quiet (Timer_wake h w) \<and> played (Timer_wake h w) = played w \<and>
     length (threads (Timer_wake h w)) = length (threads w)"
  using wake_effect [of h w] by (simp add: quiet_nth Timer_wake_def)

lemma quiet_call: "quiet w \<Longrightarrow> Timer_call h w = w"
  by (rule call_idle) (auto simp: quiet_nth live_def)

lemma quiet_step:
  "quiet w \<Longrightarrow> quiet (do_step t w) \<and> played (do_step t w) = played w \<and>
     length (threads (do_step t w)) = length (threads w)"
  by (cases t) (simp_all add: quiet_wake quiet_call)

lemma quiet_steps:
  "quiet w \<Longrightarrow> quiet (thread_steps ts w) \<and> played (thread_steps ts w) = played w \<and>
     length (threads (thread_steps ts w)) = length (threads w)"
proof (induction ts arbitrary: w)
  case Nil
  then show ?case by simp
next
  case (Cons t ts)
  from quiet_step [OF Cons.prems, of t] Cons.IH [of "do_step t w"]
  show ?case by simp
qed

lemma played_stop: "played (BeepController_stop w) = played w"
  by (simp add: BeepController_stop_def RepeatTimer_stop_def Timer_cancel_def upd_timer_def
      split: option.splits)

text \<open>
  Claim C1, as amended. Let the program have been constructed and have run any commands
  and timer steps, and let no timer thread be in flight (committed to its call, past the
  test of its event) when \<^verbatim>\<open>stop()\<close> is called. Then after \<^verbatim>\<open>stop()\<close> has returned,
  whatever steps the timer threads take, no playback call is made, no thread is created
  and no thread is live: nothing fires and nothing further is scheduled.
\<close>

theorem stop_without_race:
  assumes "BeepController_init e s d v printed cfg file = Inr w0"
    and "main_loop e es w0 = Continue w"
    and "list_all (\<lambda>t. \<not> in_flight t) (threads w)"
  shows "played (thread_steps ts (BeepController_stop w)) = played w \<and>
         length (threads (thread_steps ts (BeepController_stop w))) = length (threads w) \<and>
         list_all (\<lambda>t. \<not> live t) (threads (thread_steps ts (BeepController_stop w)))"
proof -
  have "owned (world_of (main_loop e es w0))"
    using owned_main_loop [OF owned_init [OF assms(1)]] .
  then have "owned w" using assms(2) by simp
  then have q: "quiet (BeepController_stop w)"
    using assms(3) by (rule stop_quiet)
  have "length (threads (BeepController_stop w)) = length (threads w)"
    using stop_effect [of w] by (simp add: BeepController_stop_def)
  then show ?thesis
    using quiet_steps [OF q, of ts] by (simp add: played_stop quiet_def)
qed

lemma fire0_world0:
  "threads (fire 0 world0) =
      [\<lparr>t_interval = 7, finished = True, phase = Ended\<rparr>,
       \<lparr>t_interval = 7, finished = False, phase = Waiting\<rparr>]"
  "played (fire 0 world0) = [(Some ''beep.wav'', 1 / 5)]"
  by (simp_all add: fire_def eval_defs world0_fields)

theorem stop_without_race_witness:
  "BeepController_init env0 ''beep.wav'' 7 20 [] cfg0 (Some cfg0) = Inr world0 \<and>
   main_loop env0 [Thread (Wake 0), Thread (Call 0)] world0 = Continue (fire 0 world0) \<and>
   list_all (\<lambda>t. \<not> in_flight t) (threads (fire 0 world0)) \<and>
   played (fire 0 world0) = [(Some ''beep.wav'', 1 / 5)] \<and>
   played (thread_steps [Wake 1, Call 1, Wake 0] (BeepController_stop (fire 0 world0))) =
     [(Some ''beep.wav'', 1 / 5)] \<and>
   length (threads (thread_steps [Wake 1, Call 1, Wake 0] (BeepController_stop (fire 0 world0)))) = 2 \<and>
   list_all (\<lambda>t. \<not> live t)
     (threads (thread_steps [Wake 1, Call 1, Wake 0] (BeepController_stop (fire 0 world0))))"
proof -
  have m: "main_loop env0 [Thread (Wake 0), Thread (Call 0)] world0 = Continue (fire 0 world0)"
    by (simp add: fire_def)
  have f: "list_all (\<lambda>t. \<not> in_flight t) (threads (fire 0 world0))"
    unfolding fire0_world0 by (simp add: in_flight_def)
  show ?thesis
    using stop_without_race [OF world0_init m f, of "[Wake 1, Call 1, Wake 0]"] m f
    by (simp add: world0_init fire0_world0 del: thread_steps.simps main_loop.simps)
qed

text \<open>
  Claim C1 as stated fails for a fire that races with the stop call. \<^verbatim>\<open>dong\<close> tests
  \<^verbatim>\<open>paused\<close> only and \<^verbatim>\<open>_run\<close> re-arms without a test. In the running example thread 0
  passes the test of its event, then \<^verbatim>\<open>stop()\<close> runs and returns with nothing played,
  then the thread makes its call: one playback is made and thread 1 is pending.
\<close>

theorem stop_race_counterexample:
  "in_flight (threads (Timer_wake 0 world0) ! 0) \<and>
   played (BeepController_stop (Timer_wake 0 world0)) = [] \<and>
   played (Timer_call 0 (BeepController_stop (Timer_wake 0 world0))) =
     [(Some ''beep.wav'', 1 / 5)] \<and>
   threads (Timer_call 0 (BeepController_stop (Timer_wake 0 world0))) =
     [\<lparr>t_interval = 7, finished = True, phase = Ended\<rparr>,
      \<lparr>t_interval = 7, finished = False, phase = Waiting\<rparr>] \<and>
   pending (threads (Timer_call 0 (BeepController_stop (Timer_wake 0 world0))) ! 1)"
proof -
  have a: "threads (Timer_wake 0 world0) = [\<lparr>t_interval = 7, finished = False, phase = Called\<rparr>]"
    by (simp add: Timer_wake_def world0_fields)
  have c: "threads (Timer_call 0 (BeepController_stop (Timer_wake 0 world0))) =
     [\<lparr>t_interval = 7, finished = True, phase = Ended\<rparr>,
      \<lparr>t_interval = 7, finished = False, phase = Waiting\<rparr>]"
    by (simp add: BeepController_stop_def eval_defs world0_fields)
  have d: "played (Timer_call 0 (BeepController_stop (Timer_wake 0 world0))) =
     [(Some ''beep.wav'', 1 / 5)]"
    by (simp add: BeepController_stop_def eval_defs world0_fields)
  have e: "played (BeepController_stop (Timer_wake 0 world0)) = []"
    by (simp add: played_stop Timer_wake_def world0_fields)
  show ?thesis
    unfolding a c d e by (simp add: phase_defs)
qed

subsection \<open>\<^verbatim>\<open>pause()\<close> and \<^verbatim>\<open>resume()\<close>\<close>











subsection \<open>Exit commands and unknown commands\<close>

lemma exit_not_prefixed:
  "cmd \<in> set exit_commands \<Longrightarrow>
   \<not> startswith cmd ''-v '' \<and> \<not> startswith cmd ''-d '' \<and> \<not> startswith cmd ''-s '' \<and>
   cmd \<noteq> ''pause'' \<and> cmd \<noteq> ''resume''"
  by (auto simp: exit_commands_def startswith_def)

text \<open>
  Claim C8, as amended. Each of \<^verbatim>\<open>exit\<close>, \<^verbatim>\<open>exit()\<close>, \<^verbatim>\<open>stop\<close>, \<^verbatim>\<open>stop()\<close>, \<^verbatim>\<open>quit\<close>,
  \<^verbatim>\<open>quit()\<close> and \<^verbatim>\<open>q\<close> makes the loop call \<^verbatim>\<open>BeepController.stop()\<close>, print the closing
  message and leave, whatever input follows. A command that is none of these, is neither
  \<^verbatim>\<open>pause\<close> nor \<^verbatim>\<open>resume\<close> and starts with none of \<^verbatim>\<open>-v \<close>, \<^verbatim>\<open>-d \<close>, \<^verbatim>\<open>-s \<close> prints the
  two usage messages, changes nothing else and lets the loop go on.
\<close>

theorem exit_commands_stop:
  "(cmd \<in> set [''exit'', ''exit()'', ''stop'', ''stop()'', ''quit'', ''quit()'', ''q''] \<longrightarrow>
      handle_cmd e cmd w = Break (print ExitingProgram (BeepController_stop w)) \<and>
      (py_strip line = cmd \<longrightarrow>
         main_loop e (Input line # es) w = Break (print ExitingProgram (BeepController_stop w)))) \<and>
   (\<not> startswith cmd ''-v '' \<and> \<not> startswith cmd ''-d '' \<and> \<not> startswith cmd ''-s '' \<and>
    cmd \<noteq> ''pause'' \<and> cmd \<noteq> ''resume'' \<and>
    cmd \<notin> set [''exit'', ''exit()'', ''stop'', ''stop()'', ''quit'', ''quit()'', ''q''] \<longrightarrow>
      handle_cmd e cmd w = Continue (w\<lparr>out := out w @ [InvalidCommand, AvailableCommands]\<rparr>))"
proof -
  have x: "set [''exit'', ''exit()'', ''stop'', ''stop()'', ''quit'', ''quit()'', ''q''] =
      set exit_commands"
    by (simp add: exit_commands_def)
  have a: "handle_cmd e cmd w = Break (print ExitingProgram (BeepController_stop w))"
    if "cmd \<in> set exit_commands"
    using that exit_not_prefixed [OF that] by (simp add: handle_cmd_def)
  have b: "handle_cmd e cmd w = Continue (w\<lparr>out := out w @ [InvalidCommand, AvailableCommands]\<rparr>)"
    if "\<not> startswith cmd ''-v ''" "\<not> startswith cmd ''-d ''" "\<not> startswith cmd ''-s ''"
      "cmd \<noteq> ''pause''" "cmd \<noteq> ''resume''" "cmd \<notin> set exit_commands"
    using that by (simp add: handle_cmd_def print_def)
  show ?thesis
    unfolding x using a b by auto
qed

theorem exit_commands_stop_witness:
  "handle_cmd env0 ''quit()'' world0 = Break (print ExitingProgram (BeepController_stop world0)) \<and>
   main_loop env0 [Input ''  quit() '', Input ''pause''] world0 =
     Break (print ExitingProgram (BeepController_stop world0)) \<and>
   threads (print ExitingProgram (BeepController_stop world0)) =
     [\<lparr>t_interval = 7, finished = True, phase = Waiting\<rparr>] \<and>
   handle_cmd env0 ''help'' world0 =
     Continue (world0\<lparr>out := out world0 @ [InvalidCommand, AvailableCommands]\<rparr>)"
proof -
  have s: "py_strip ''  quit() '' = ''quit()''"
    by (simp add: py_strip_def py_isspace_def)
  have n: "\<not> startswith ''help'' ''-v '' \<and> \<not> startswith ''help'' ''-d '' \<and>
      \<not> startswith ''help'' ''-s ''"
    by (simp add: startswith_def)
  have t: "threads (print ExitingProgram (BeepController_stop world0)) =
     [\<lparr>t_interval = 7, finished = True, phase = Waiting\<rparr>]"
    by (simp add: BeepController_stop_def RepeatTimer_stop_def Timer_cancel_def upd_timer_def
        print_def world0_fields)
  show ?thesis
    using exit_commands_stop [of "''quit()''" env0 world0 "''  quit() ''" "[Input ''pause'']"]
      exit_commands_stop [of "''help''" env0 world0] s n t
    by (simp del: main_loop.simps)
qed

text \<open>
  Claim C8 as stated fails for the parenthesized variant of \<^verbatim>\<open>q\<close>: \<^verbatim>\<open>q()\<close> is not in the
  tuple of exit commands. The loop prints the usage and goes on, and the timer is
  neither stopped nor cancelled.
\<close>

theorem q_parenthesized_counterexample:
  "py_strip ''q()'' = ''q()'' \<and>
   main_loop env0 [Input ''q()''] world0 =
     Continue (world0\<lparr>out := [InvalidCommand, AvailableCommands]\<rparr>) \<and>
   threads (world0\<lparr>out := [InvalidCommand, AvailableCommands]\<rparr>) =
     [\<lparr>t_interval = 7, finished = False, phase = Waiting\<rparr>] \<and>
   is_running (timer (beeper (world0\<lparr>out := [InvalidCommand, AvailableCommands]\<rparr>)))"
  by (simp add: py_strip_def py_isspace_def handle_cmd_def startswith_def exit_commands_def
      print_def world0_fields)

end
